theory Spec2Isabelle
  imports Main
begin

section \<open>Python values, exceptions and classes\<close>

text \<open>
  The module \<^verbatim>\<open>umongo/abstract.py\<close> handles arbitrary Python objects. The values the
  embedding needs are the sentinel \<^verbatim>\<open>marshmallow.missing\<close>, \<^verbatim>\<open>None\<close>, the scalars,
  lists, plain dictionaries, dictionaries of class \<^verbatim>\<open>I18nErrorDict\<close>, and opaque objects
  (validators, callables) that are only passed around. A dictionary is an association
  list in insertion order, with string keys.
\<close>

datatype pyval =
    Missing
  | PNone
  | PBool bool
  | PInt int
  | PStr string
  | PList "pyval list"
  | PDict "(string \<times> pyval) list"
  | PI18nErrorDict "(string \<times> pyval) list"
  | PObject string

text \<open>The exceptions that the module raises or lets through.\<close>

datatype py_error =
    ValidationError string
  | KeyError string
  | AttributeError string
  | IndexError
  | ValueError
  | NotImplementedError

text \<open>
  A class is its qualified name and its linearisation (the names of \<^verbatim>\<open>cls.mro()\<close>,
  the class itself first). \<^verbatim>\<open>issubclass(c, b)\<close> holds when \<^verbatim>\<open>b\<close> occurs in the
  linearisation of \<^verbatim>\<open>c\<close>.
\<close>

record py_class =
  cname :: string
  cmro :: "string list"

definition issubclass :: "py_class \<Rightarrow> string \<Rightarrow> bool" where
  "issubclass c b = (b \<in> set (cmro c))"

definition BaseField_name :: string where
  "BaseField_name = ''umongo.abstract.BaseField''"

definition ma_Field_name :: string where
  "ma_Field_name = ''marshmallow.fields.Field''"

text \<open>The class \<^verbatim>\<open>marshmallow.fields.Field\<close> and the class \<^verbatim>\<open>BaseField\<close> that extends it.\<close>

definition ma_Field_class :: py_class where
  "ma_Field_class =
     \<lparr>cname = ma_Field_name,
      cmro = [ma_Field_name, ''marshmallow.base.FieldABC'', ''object'']\<rparr>"

definition BaseField_class :: py_class where
  "BaseField_class =
     \<lparr>cname = BaseField_name,
      cmro = [BaseField_name, ma_Field_name, ''marshmallow.base.FieldABC'', ''object'']\<rparr>"

section \<open>The translation hook\<close>

text \<open>
  \<^verbatim>\<open>from .i18n import gettext as _\<close>: the catalog is process-wide state that lives in
  another module. Every function that calls \<^verbatim>\<open>_\<close> takes the catalog that is active at the
  time of the call as its first argument \<open>gettext\<close>, a function from objects to objects.
  \<open>no_catalog\<close> is the translator without a catalog, which returns the template unchanged.
\<close>

type_synonym catalog = "pyval \<Rightarrow> pyval"

definition no_catalog :: catalog where
  "no_catalog m = m"

section \<open>Dictionaries\<close>

text \<open>\<^verbatim>\<open>dict.__getitem__\<close>: the value stored under the key, or \<^verbatim>\<open>KeyError\<close>.\<close>

definition dict_getitem :: "(string \<times> pyval) list \<Rightarrow> string \<Rightarrow> py_error + pyval" where
  "dict_getitem d name =
     (case map_of d name of None \<Rightarrow> Inl (KeyError name) | Some raw_msg \<Rightarrow> Inr raw_msg)"

text \<open>
  \<^verbatim>\<open>d[k] = v\<close> keeps the position of a key that is present and appends a new key;
  \<^verbatim>\<open>d.update(params)\<close> stores the items of \<^verbatim>\<open>params\<close> in order.
\<close>

fun dict_setitem :: "(string \<times> pyval) list \<Rightarrow> string \<Rightarrow> pyval \<Rightarrow> (string \<times> pyval) list" where
  "dict_setitem [] k v = [(k, v)]"
| "dict_setitem ((k', v') # d) k v =
     (if k' = k then (k, v) # d else (k', v') # dict_setitem d k v)"

fun dict_update :: "(string \<times> pyval) list \<Rightarrow> (string \<times> pyval) list \<Rightarrow> (string \<times> pyval) list" where
  "dict_update d [] = d"
| "dict_update d ((k, v) # ps) = dict_update (dict_setitem d k v) ps"

text \<open>
  The error messages of a field are a plain \<^verbatim>\<open>dict\<close> (as marshmallow builds them) or an
  \<^verbatim>\<open>I18nErrorDict\<close>. \<^verbatim>\<open>I18nErrorDict(d)\<close> copies the stored items of \<^verbatim>\<open>d\<close>;
  \<^verbatim>\<open>I18nErrorDict.__getitem__\<close> translates the stored template when it is read.
\<close>

datatype errdict =
    Dict "(string \<times> pyval) list"
  | I18nErrorDict "(string \<times> pyval) list"

fun errdict_items :: "errdict \<Rightarrow> (string \<times> pyval) list" where
  "errdict_items (Dict d) = d"
| "errdict_items (I18nErrorDict d) = d"

definition I18nErrorDict_init :: "errdict \<Rightarrow> errdict" where
  "I18nErrorDict_init d = I18nErrorDict (errdict_items d)"

definition I18nErrorDict_getitem ::
  "catalog \<Rightarrow> (string \<times> pyval) list \<Rightarrow> string \<Rightarrow> py_error + pyval" where
  "I18nErrorDict_getitem gettext d name =
     (case dict_getitem d name of
        Inl e \<Rightarrow> Inl e
      | Inr raw_msg \<Rightarrow> Inr (gettext raw_msg))"

fun errdict_getitem :: "catalog \<Rightarrow> errdict \<Rightarrow> string \<Rightarrow> py_error + pyval" where
  "errdict_getitem gettext (Dict d) name = dict_getitem d name"
| "errdict_getitem gettext (I18nErrorDict d) name = I18nErrorDict_getitem gettext d name"


section \<open>Fields\<close>

text \<open>
  An instance of \<^verbatim>\<open>marshmallow.fields.Field\<close> after its constructor has run: the
  attributes that this module reads, and the linearisation of its class
  (\<^verbatim>\<open>type(self).mro()\<close>). The attributes \<^verbatim>\<open>default\<close>, \<^verbatim>\<open>validate\<close> and \<^verbatim>\<open>missing\<close>
  carry the suffix \<open>_v\<close>.
\<close>

record ma_Field =
  mro :: "py_class list"
  default_v :: pyval
  attribute :: "string option"
  load_from :: "string option"
  validate_v :: pyval
  required :: bool
  allow_none :: bool
  load_only :: bool
  dump_only :: bool
  missing_v :: pyval
  error_messages :: errdict

text \<open>
  \<^verbatim>\<open>BaseField\<close> adds \<^verbatim>\<open>io_validate\<close>, \<^verbatim>\<open>unique\<close> and \<^verbatim>\<open>instance\<close>. The two conversion
  hooks \<^verbatim>\<open>_serialize_to_mongo\<close> and \<^verbatim>\<open>_deserialize_from_mongo\<close> are methods that concrete
  field classes override and that may raise, so an instance carries the ones its class
  binds (prefix \<open>u_\<close> for the leading underscore).
\<close>

record BaseField = ma_Field +
  io_validate :: pyval
  unique :: bool
  instance_v :: pyval
  u_serialize_to_mongo :: "pyval \<Rightarrow> py_error + pyval"
  u_deserialize_from_mongo :: "pyval \<Rightarrow> py_error + pyval"

text \<open>The class attribute \<^verbatim>\<open>BaseField.default_error_messages\<close>.\<close>

definition default_error_messages :: "(string \<times> pyval) list" where
  "default_error_messages =
     [(''unique'', PStr ''Field value must be unique.''),
      (''unique_compound'', PStr ''Values of fields {fields} must be unique together.'')]"

text \<open>The hooks as \<^verbatim>\<open>BaseField\<close> itself defines them: both return their argument.\<close>

definition BaseField_u_serialize_to_mongo :: "pyval \<Rightarrow> py_error + pyval" where
  "BaseField_u_serialize_to_mongo obj = Inr obj"

definition BaseField_u_deserialize_from_mongo :: "pyval \<Rightarrow> py_error + pyval" where
  "BaseField_u_deserialize_from_mongo v = Inr v"

text \<open>
  \<^verbatim>\<open>BaseField.__init__\<close>, for an instance of a class that keeps the hooks of
  \<^verbatim>\<open>BaseField\<close>: \<open>super_init\<close> is the instance as \<^verbatim>\<open>super().__init__\<close> leaves it; the
  error messages are wrapped in an \<^verbatim>\<open>I18nErrorDict\<close>, the three keyword arguments are
  stored.
\<close>

definition BaseField_init :: "ma_Field \<Rightarrow> pyval \<Rightarrow> bool \<Rightarrow> pyval \<Rightarrow> BaseField" where
  "BaseField_init super_init io_validate' unique' instance' =
     \<lparr>mro = mro super_init,
      default_v = default_v super_init,
      attribute = attribute super_init,
      load_from = load_from super_init,
      validate_v = validate_v super_init,
      required = required super_init,
      allow_none = allow_none super_init,
      load_only = load_only super_init,
      dump_only = dump_only super_init,
      missing_v = missing_v super_init,
      error_messages = I18nErrorDict_init (error_messages super_init),
      io_validate = io_validate',
      unique = unique',
      instance_v = instance',
      u_serialize_to_mongo = BaseField_u_serialize_to_mongo,
      u_deserialize_from_mongo = BaseField_u_deserialize_from_mongo\<rparr>"

definition serialize_to_mongo :: "BaseField \<Rightarrow> pyval \<Rightarrow> py_error + pyval" where
  "serialize_to_mongo self obj =
     (if obj = Missing then Inr Missing else u_serialize_to_mongo self obj)"

definition deserialize_from_mongo :: "BaseField \<Rightarrow> pyval \<Rightarrow> py_error + pyval" where
  "deserialize_from_mongo self v = u_deserialize_from_mongo self v"

text \<open>
  \<^verbatim>\<open>self.attribute or key\<close>: Python's \<^verbatim>\<open>or\<close> yields the attribute when it is truthy,
  that is a non-empty string, and the key otherwise.
\<close>

definition attribute_or :: "string option \<Rightarrow> string \<Rightarrow> string" where
  "attribute_or a key = (case a of None \<Rightarrow> key | Some s \<Rightarrow> if s = [] then key else s)"

definition translate_query :: "BaseField \<Rightarrow> string \<Rightarrow> 'q \<Rightarrow> (string \<times> 'q) list" where
  "translate_query self key query = [(attribute_or (attribute self) key, query)]"



text \<open>\<^verbatim>\<open>if params: kwargs.update(params)\<close>: \<^verbatim>\<open>None\<close> and the empty dictionary are falsy.\<close>

definition update_if_params ::
  "(string \<times> pyval) list \<Rightarrow> (string \<times> pyval) list option \<Rightarrow> (string \<times> pyval) list" where
  "update_if_params kwargs params =
     (case params of
        None \<Rightarrow> kwargs
      | Some ps \<Rightarrow> if ps = [] then kwargs else dict_update kwargs ps)"



subsection \<open>The index kind of a field\<close>

datatype index_kind = No_index | Unique_index | Unique_sparse_index

text \<open>
  Modelled from the spec: the index-kind table of the storage-layer contract. The
  function that computes the index kind of a field from its flags belongs to the index
  builder of the storage layer and is not part of this module. \<open>spec_index_table\<close> is
  the table of section 3 of the specification, row by row, with the columns
  \<open>required\<close>, \<open>allow_none\<close> and \<open>unique\<close>; \<open>None\<close> stands for the entry "any".
\<close>

definition spec_index_table :: "((bool option \<times> bool option \<times> bool option) \<times> index_kind) list" where
  "spec_index_table =
     [((None, None, Some False), No_index),
      ((Some True, Some False, Some True), Unique_index),
      ((Some True, Some True, Some True), Unique_index),
      ((Some False, Some False, Some True), Unique_index),
      ((Some False, Some True, Some True), Unique_sparse_index)]"

text \<open>A row matches the flags of a field when each of its entries is "any" or the flag.\<close>

definition cell_matches :: "bool option \<Rightarrow> bool \<Rightarrow> bool" where
  "cell_matches cell flag = (case cell of None \<Rightarrow> True | Some b \<Rightarrow> b = flag)"

definition row_matches ::
  "bool \<Rightarrow> bool \<Rightarrow> bool \<Rightarrow> (bool option \<times> bool option \<times> bool option) \<times> index_kind \<Rightarrow> bool" where
  "row_matches required' allow_none' unique' row =
     (case fst row of
        (r, a, u) \<Rightarrow>
          cell_matches r required' \<and> cell_matches a allow_none' \<and> cell_matches u unique')"

text \<open>
  Modelled from the spec: the computation of the index kind from the flags, which the
  index builder outside this module performs. The index kind is that of the first row
  of the table that matches the flags, if there is one.
\<close>

definition compute_index_kind :: "bool \<Rightarrow> bool \<Rightarrow> bool \<Rightarrow> index_kind option" where
  "compute_index_kind required' allow_none' unique' =
     map_option snd (find (row_matches required' allow_none' unique') spec_index_table)"

text \<open>The index kind of a field instance, from its three flags.\<close>

definition field_index_kind :: "BaseField \<Rightarrow> index_kind option" where
  "field_index_kind self = compute_index_kind (required self) (allow_none self) (unique self)"

section \<open>Schemas\<close>

text \<open>
  A schema is read through \<^verbatim>\<open>self.fields\<close>, the ordered dictionary from declared names
  to fields (\<open>fields_v\<close>). The fields may be storage-aware fields or plain marshmallow
  fields: the check below is also attached to projected schemas.
\<close>

record 'z BaseSchema =
  fields_v :: "(string \<times> 'z ma_Field_scheme) list"

text \<open>
  \<^verbatim>\<open>template.format(field=key)\<close> for a string key. The scan is Python's: \<^verbatim>\<open>{{\<close> and
  \<^verbatim>\<open>}}\<close> are escapes, a single \<^verbatim>\<open>}\<close>, an unclosed \<^verbatim>\<open>{\<close> or a \<^verbatim>\<open>{\<close> inside a
  field name raises \<^verbatim>\<open>ValueError\<close>, \<^verbatim>\<open>{field}\<close> is replaced by the key, an empty name
  or a number asks for a positional argument and raises \<^verbatim>\<open>IndexError\<close>, and another
  name raises \<^verbatim>\<open>KeyError\<close>. The second argument is the name of the replacement field
  being read, if any. Replacement fields with a conversion, a format specification, an
  attribute or index lookup, or a number beyond the machine integers are not
  interpreted: the model covers templates whose replacement fields are bare names or
  small numbers.
\<close>

definition prepend :: "string \<Rightarrow> py_error + string \<Rightarrow> py_error + string" where
  "prepend s r = (case r of Inl e \<Rightarrow> Inl e | Inr t \<Rightarrow> Inr (s @ t))"

fun format_scan :: "string \<Rightarrow> string option \<Rightarrow> string \<Rightarrow> py_error + string" where
  "format_scan key None [] = Inr []"
| "format_scan key (Some name) [] = Inl ValueError"
| "format_scan key None (c # cs) =
     (if c = CHR ''{'' then
        (case cs of
           [] \<Rightarrow> Inl ValueError
         | d # rest \<Rightarrow>
             if d = CHR ''{'' then prepend ''{'' (format_scan key None rest)
             else format_scan key (Some []) cs)
      else if c = CHR ''}'' then
        (case cs of
           [] \<Rightarrow> Inl ValueError
         | d # rest \<Rightarrow>
             if d = CHR ''}'' then prepend ''}'' (format_scan key None rest)
             else Inl ValueError)
      else prepend [c] (format_scan key None cs))"
| "format_scan key (Some name) (c # cs) =
     (if c = CHR ''}'' then
        (if name = ''field'' then prepend key (format_scan key None cs)
         else if list_all (\<lambda>d. d \<in> set ''0123456789'') name then Inl IndexError
         else Inl (KeyError name))
      else if c = CHR ''{'' then Inl ValueError
      else format_scan key (Some (name @ [c])) cs)"

text \<open>
  \<^verbatim>\<open>x.format(field=key)\<close> on what the catalog returned: only a string has the method.
\<close>

fun py_format :: "pyval \<Rightarrow> string \<Rightarrow> py_error + string" where
  "py_format (PStr template) key = format_scan key None template"
| "py_format other key = Inl (AttributeError ''format'')"

text \<open>
  The \<^verbatim>\<open>raise\<close> statement of \<^verbatim>\<open>_check_unknown_fields\<close>: the exception that leaves it is
  the \<^verbatim>\<open>ValidationError\<close> with the formatted translation, or the exception of
  \<^verbatim>\<open>format\<close>.
\<close>

definition raise_unknown_field :: "catalog \<Rightarrow> string \<Rightarrow> py_error" where
  "raise_unknown_field gettext key =
     (case py_format (gettext (PStr ''Unknown field name {field}.'')) key of
        Inl e \<Rightarrow> e
      | Inr msg \<Rightarrow> ValidationError msg)"

definition loadable_fields :: "'z BaseSchema \<Rightarrow> string list" where
  "loadable_fields self = map fst (filter (\<lambda>(k, v). \<not> dump_only v) (fields_v self))"

text \<open>
  The loop over the keys of \<^verbatim>\<open>original_data\<close>, in the dictionary's order; falling off
  the end returns \<^verbatim>\<open>None\<close>.
\<close>

fun check_unknown_fields_loop :: "catalog \<Rightarrow> string list \<Rightarrow> string list \<Rightarrow> py_error + unit" where
  "check_unknown_fields_loop gettext loadable [] = Inr ()"
| "check_unknown_fields_loop gettext loadable (key # keys) =
     (if key \<notin> set loadable then Inl (raise_unknown_field gettext key)
      else check_unknown_fields_loop gettext loadable keys)"

text \<open>\<^verbatim>\<open>_check_unknown_fields(self, data, original_data)\<close>.\<close>

definition check_unknown_fields ::
  "catalog \<Rightarrow> 'z BaseSchema \<Rightarrow> 'd \<Rightarrow> (string \<times> pyval) list \<Rightarrow> py_error + unit" where
  "check_unknown_fields gettext self data original_data =
     check_unknown_fields_loop gettext (loadable_fields self) (map fst original_data)"

text \<open>
  The reading of the specification, for comparison: one error for each key of the raw
  mapping that is not a loadable field name.
\<close>

definition unknown_key_errors_spec ::
  "catalog \<Rightarrow> 'z BaseSchema \<Rightarrow> (string \<times> pyval) list \<Rightarrow> py_error list" where
  "unknown_key_errors_spec gettext self original_data =
     map (raise_unknown_field gettext)
       (filter (\<lambda>key. key \<notin> set (loadable_fields self)) (map fst original_data))"

text \<open>The errors that one run of the check contributes: the exception it raised, if any.\<close>

definition raised :: "py_error + unit \<Rightarrow> py_error list" where
  "raised r = (case r of Inl e \<Rightarrow> [e] | Inr u \<Rightarrow> [])"

section \<open>Validators\<close>

text \<open>
  A validator instance: the linearisation of its class, the attribute \<^verbatim>\<open>_error\<close>
  (\<open>u_error\<close>), and its other instance and class attributes by name.
\<close>

record BaseValidator =
  vmro :: "py_class list"
  u_error :: pyval
  attrs :: "(string \<times> pyval) list"

text \<open>\<^verbatim>\<open>BaseValidator.__init__\<close> sets \<^verbatim>\<open>_error\<close> to \<^verbatim>\<open>None\<close> before the parent constructor runs.\<close>

definition BaseValidator_init :: "py_class list \<Rightarrow> (string \<times> pyval) list \<Rightarrow> BaseValidator" where
  "BaseValidator_init classes attrs' = \<lparr>vmro = classes, u_error = PNone, attrs = attrs'\<rparr>"

text \<open>The property \<^verbatim>\<open>error\<close>: the getter translates, the setter stores.\<close>

definition error :: "catalog \<Rightarrow> BaseValidator \<Rightarrow> pyval" where
  "error gettext self = gettext (u_error self)"

definition error_setter :: "BaseValidator \<Rightarrow> pyval \<Rightarrow> BaseValidator" where
  "error_setter self v = self\<lparr>u_error := v\<rparr>"

text \<open>\<^verbatim>\<open>getattr(self, name)\<close> on a validator.\<close>

definition validator_getattr :: "catalog \<Rightarrow> BaseValidator \<Rightarrow> string \<Rightarrow> py_error + pyval" where
  "validator_getattr gettext self name =
     (if name = ''error'' then Inr (error gettext self)
      else if name = ''_error'' then Inr (u_error self)
      else case map_of (attrs self) name of
             None \<Rightarrow> Inl (AttributeError name)
           | Some v \<Rightarrow> Inr v)"

text \<open>The dictionary comprehension: the first missing attribute raises.\<close>

fun getattrs :: "catalog \<Rightarrow> BaseValidator \<Rightarrow> string list \<Rightarrow> py_error + (string \<times> pyval) list" where
  "getattrs gettext self [] = Inr []"
| "getattrs gettext self (name # names) =
     (case validator_getattr gettext self name of
        Inl e \<Rightarrow> Inl e
      | Inr v \<Rightarrow>
          (case getattrs gettext self names of
             Inl e \<Rightarrow> Inl e
           | Inr kwargs \<Rightarrow> Inr ((name, v) # kwargs)))"

text \<open>The loop of \<^verbatim>\<open>as_marshmallow_validator\<close>, with the same test as the one for fields.\<close>

fun as_marshmallow_validator_loop ::
  "(py_class \<Rightarrow> (string \<times> pyval) list \<Rightarrow> py_error + 'o) \<Rightarrow>
   (string \<times> pyval) list \<Rightarrow> py_class list \<Rightarrow> py_error + 'o option" where
  "as_marshmallow_validator_loop construct kwargs [] = Inr None"
| "as_marshmallow_validator_loop construct kwargs (m_class # classes) =
     (if \<not> issubclass m_class BaseField_name \<and> issubclass m_class ma_Field_name then
        (case construct m_class kwargs of
           Inl e \<Rightarrow> Inl e
         | Inr m \<Rightarrow> Inr (Some m))
      else as_marshmallow_validator_loop construct kwargs classes)"

definition as_marshmallow_validator ::
  "catalog \<Rightarrow> (py_class \<Rightarrow> (string \<times> pyval) list \<Rightarrow> py_error + 'o) \<Rightarrow>
   BaseValidator \<Rightarrow> (string \<times> pyval) list option \<Rightarrow> bool \<Rightarrow> py_error + 'o option" where
  "as_marshmallow_validator gettext construct self params mongo_world =
     (case getattrs gettext self
             [''default'', ''attribute'', ''load_from'', ''validate'', ''required'',
              ''allow_none'', ''load_only'', ''dump_only'', ''missing'', ''error_messages''] of
        Inl e \<Rightarrow> Inl e
      | Inr kwargs \<Rightarrow>
          as_marshmallow_validator_loop construct (update_if_params kwargs params) (vmro self))"

section \<open>Data objects\<close>

text \<open>\<^verbatim>\<open>BaseDataObject.to_mongo\<close> and \<^verbatim>\<open>BaseDataObject.dump\<close> return \<^verbatim>\<open>self\<close>.\<close>

definition to_mongo :: "'obj \<Rightarrow> bool \<Rightarrow> 'obj" where
  "to_mongo self update = self"

definition dump :: "'obj \<Rightarrow> 'obj" where
  "dump self = self"

section \<open>Concrete instances\<close>

text \<open>
  A string field as \<^verbatim>\<open>class StringField(BaseField, ma_fields.String)\<close> declares it, the
  linearisation of its class, and an instance with the storage alias \<^verbatim>\<open>_id\<close>.
\<close>

definition StringField_class :: py_class where
  "StringField_class =
     \<lparr>cname = ''umongo.fields.StringField'',
      cmro = [''umongo.fields.StringField'', BaseField_name, ''marshmallow.fields.String'',
              ma_Field_name, ''marshmallow.base.FieldABC'', ''object'']\<rparr>"

definition ma_String_class :: py_class where
  "ma_String_class =
     \<lparr>cname = ''marshmallow.fields.String'',
      cmro = [''marshmallow.fields.String'', ma_Field_name, ''marshmallow.base.FieldABC'',
              ''object'']\<rparr>"

definition FieldABC_class :: py_class where
  "FieldABC_class =
     \<lparr>cname = ''marshmallow.base.FieldABC'',
      cmro = [''marshmallow.base.FieldABC'', ''object'']\<rparr>"

definition object_class :: py_class where
  "object_class = \<lparr>cname = ''object'', cmro = [''object'']\<rparr>"

definition StringField_mro :: "py_class list" where
  "StringField_mro =
     [StringField_class, BaseField_class, ma_String_class, ma_Field_class, FieldABC_class,
      object_class]"

definition example_super_init :: ma_Field where
  "example_super_init =
     \<lparr>mro = StringField_mro, default_v = Missing, attribute = Some ''_id'', load_from = None,
      validate_v = PNone, required = False, allow_none = False, load_only = False,
      dump_only = False, missing_v = Missing, error_messages = Dict default_error_messages\<rparr>"

definition example_field :: BaseField where
  "example_field = BaseField_init example_super_init PNone True PNone"






text \<open>A constructor stand-in that returns the class and the arguments of the call.\<close>

definition record_call ::
  "py_class \<Rightarrow> (string \<times> pyval) list \<Rightarrow> py_error + (py_class \<times> (string \<times> pyval) list)" where
  "record_call m_class kwargs = Inr (m_class, kwargs)"

text \<open>A catalog that translates two of the module's templates.\<close>

definition fr_catalog :: catalog where
  "fr_catalog m =
     (if m = PStr ''Field value must be unique.'' then PStr ''Valeur deja utilisee.''
      else if m = PStr ''Unknown field name {field}.'' then PStr ''Champ inconnu : {field}.''
      else m)"

text \<open>
  A range validator as \<^verbatim>\<open>class Range(BaseValidator, validate.Range)\<close> declares it, built
  with \<^verbatim>\<open>Range(min=0)\<close>; and the ten attributes of a field, which a validator does not
  have.
\<close>

definition Range_mro :: "py_class list" where
  "Range_mro =
     [\<lparr>cname = ''umongo.validate.Range'',
       cmro = [''umongo.validate.Range'', ''umongo.abstract.BaseValidator'',
               ''marshmallow.validate.Range'', ''marshmallow.validate.Validator'', ''object'']\<rparr>,
      \<lparr>cname = ''umongo.abstract.BaseValidator'',
       cmro = [''umongo.abstract.BaseValidator'', ''marshmallow.validate.Validator'',
               ''object'']\<rparr>,
      \<lparr>cname = ''marshmallow.validate.Range'',
       cmro = [''marshmallow.validate.Range'', ''marshmallow.validate.Validator'', ''object'']\<rparr>,
      \<lparr>cname = ''marshmallow.validate.Validator'',
       cmro = [''marshmallow.validate.Validator'', ''object'']\<rparr>,
      object_class]"

definition Range_validator :: BaseValidator where
  "Range_validator =
     error_setter (BaseValidator_init Range_mro [(''min'', PInt 0), (''max'', PNone)]) PNone"

definition field_like_attrs :: "(string \<times> pyval) list" where
  "field_like_attrs =
     [(''default'', Missing), (''attribute'', PNone), (''load_from'', PNone),
      (''validate'', PNone), (''required'', PBool False), (''allow_none'', PBool False),
      (''load_only'', PBool False), (''dump_only'', PBool False), (''missing'', Missing),
      (''error_messages'', PDict [])]"

text \<open>
  Schemas: one optional field \<^verbatim>\<open>name\<close>; one field \<^verbatim>\<open>id\<close> stored as \<^verbatim>\<open>_id\<close>; and
  the first with a field \<^verbatim>\<open>created\<close> that is \<^verbatim>\<open>dump_only\<close>. A raw mapping with two
  keys that no schema declares.
\<close>

definition name_schema :: "unit BaseSchema" where
  "name_schema = \<lparr>fields_v = [(''name'', example_super_init\<lparr>attribute := None\<rparr>)]\<rparr>"

definition id_schema :: "unit BaseSchema" where
  "id_schema = \<lparr>fields_v = [(''id'', example_super_init)]\<rparr>"

definition stamped_schema :: "unit BaseSchema" where
  "stamped_schema =
     \<lparr>fields_v = [(''name'', example_super_init\<lparr>attribute := None\<rparr>),
                  (''created'', example_super_init\<lparr>attribute := None, dump_only := True\<rparr>)]\<rparr>"

definition two_unknown_keys :: "(string \<times> pyval) list" where
  "two_unknown_keys = [(''ghost'', PInt 1), (''phantom'', PInt 2)]"

section \<open>Lemmas about the loops\<close>

lemma raise_unknown_field_no_catalog:
  "raise_unknown_field no_catalog key = ValidationError (''Unknown field name '' @ key @ ''.'')"
  by (simp add: raise_unknown_field_def no_catalog_def prepend_def)

lemma check_unknown_fields_loop_first:
  "check_unknown_fields_loop gettext loadable keys =
     (case filter (\<lambda>key. key \<notin> set loadable) keys of
        [] \<Rightarrow> Inr ()
      | key # others \<Rightarrow> Inl (raise_unknown_field gettext key))"
  by (induction keys) auto

lemma filter_nonempty_hd:
  "x \<in> set xs \<Longrightarrow> P x \<Longrightarrow> \<exists>y ys. filter P xs = y # ys \<and> y \<in> set xs \<and> P y"
  by (induction xs) auto

lemma loadable_fields_not_dump_only:
  assumes "distinct (map fst fs)" and "map_of fs key = Some f" and "dump_only f"
  shows "key \<notin> fst ` set (filter (\<lambda>(k, v). \<not> dump_only v) fs)"
  using assms
proof (induction fs)
  case Nil
  then show ?case by simp
next
  case (Cons p fs)
  obtain k v where p: "p = (k, v)" by (cases p)
  show ?case
  proof (cases "k = key")
    case True
    with Cons.prems p have "v = f" and "key \<notin> fst ` set fs" by auto
    with True p Cons.prems(3) show ?thesis by (auto simp: image_iff)
  next
    case False
    with Cons p show ?thesis by auto
  qed
qed



lemma as_marshmallow_validator_loop_none:
  "\<forall>c \<in> set classes. \<not> issubclass c ma_Field_name \<Longrightarrow>
   as_marshmallow_validator_loop construct kwargs classes = Inr None"
  by (induction classes) simp_all

text \<open>
  No class of a validator is a marshmallow field class, so whatever attributes the
  validator has, \<^verbatim>\<open>as_marshmallow_validator\<close> never returns an object.
\<close>

lemma as_marshmallow_validator_no_result:
  assumes "\<forall>c \<in> set (vmro self). \<not> issubclass c ma_Field_name"
  shows "as_marshmallow_validator gettext construct self params mongo_world \<noteq> Inr (Some m)"
  using assms
  by (simp add: as_marshmallow_validator_def as_marshmallow_validator_loop_none
      split: sum.split)





section \<open>Properties\<close>

subsection \<open>Conversion between the two representations\<close>

text \<open>
  Claim C1. For a field whose class does not override the conversion hooks (the
  base variant) and every value \<open>v\<close> other than the absent sentinel, converting
  \<open>v\<close> to the storage representation and converting the result back succeeds and
  returns \<open>v\<close>.
\<close>

theorem round_trip_base_field:
  assumes "u_serialize_to_mongo self = BaseField_u_serialize_to_mongo"
    and "u_deserialize_from_mongo self = BaseField_u_deserialize_from_mongo"
    and "v \<noteq> Missing"
  shows "(case serialize_to_mongo self v of
            Inl e \<Rightarrow> Inl e
          | Inr stored \<Rightarrow> deserialize_from_mongo self stored) = Inr v"
  using assms
  by (simp add: serialize_to_mongo_def deserialize_from_mongo_def
      BaseField_u_serialize_to_mongo_def BaseField_u_deserialize_from_mongo_def)

theorem round_trip_base_field_witness:
  "u_serialize_to_mongo example_field = BaseField_u_serialize_to_mongo \<and>
   u_deserialize_from_mongo example_field = BaseField_u_deserialize_from_mongo \<and>
   PInt 7 \<noteq> Missing \<and>
   (case serialize_to_mongo example_field (PInt 7) of
      Inl e \<Rightarrow> Inl e
    | Inr stored \<Rightarrow> deserialize_from_mongo example_field stored) = Inr (PInt 7)"
proof -
  have h1: "u_serialize_to_mongo example_field = BaseField_u_serialize_to_mongo"
    by (simp add: example_field_def BaseField_init_def)
  have h2: "u_deserialize_from_mongo example_field = BaseField_u_deserialize_from_mongo"
    by (simp add: example_field_def BaseField_init_def)
  have h3: "PInt 7 \<noteq> Missing" by simp
  from round_trip_base_field [OF h1 h2 h3] h1 h2 show ?thesis by simp
qed

text \<open>
  Claim C5. For every field, whatever conversion hook its class binds, converting
  the absent sentinel to storage returns the absent sentinel. The hook is not
  applied: the result is the same for every hook, also for one that raises on every
  argument or that would map the sentinel to another value.
\<close>

theorem serialize_to_mongo_missing:
  "serialize_to_mongo self Missing = Inr Missing \<and>
   serialize_to_mongo (self\<lparr>u_serialize_to_mongo := hook\<rparr>) Missing = Inr Missing"
  by (simp add: serialize_to_mongo_def)

theorem serialize_to_mongo_missing_witness:
  "serialize_to_mongo (example_field\<lparr>u_serialize_to_mongo := (\<lambda>obj. Inl ValueError)\<rparr>) Missing =
     Inr Missing \<and>
   serialize_to_mongo (example_field\<lparr>u_serialize_to_mongo := (\<lambda>obj. Inr PNone)\<rparr>) Missing =
     Inr Missing"
  using serialize_to_mongo_missing [of example_field "\<lambda>obj. Inl ValueError"]
    serialize_to_mongo_missing [of example_field "\<lambda>obj. Inr PNone"]
  by simp

text \<open>
  Claim C9. \<^verbatim>\<open>translate_query(key, query)\<close> returns a mapping with exactly one entry,
  whose value is the query. Its key is the storage attribute of the field when one is
  set, which for Python's \<^verbatim>\<open>or\<close> means a non-empty string, and the given key
  otherwise. The function reads the field and returns a new mapping; the field and the
  arguments are not part of its result, so nothing of them changes.
\<close>

theorem translate_query_single_entry:
  "(attribute self = Some a \<and> a \<noteq> [] \<longrightarrow> translate_query self key query = [(a, query)]) \<and>
   (attribute self = None \<or> attribute self = Some [] \<longrightarrow>
      translate_query self key query = [(key, query)]) \<and>
   length (translate_query self key query) = 1"
  by (auto simp: translate_query_def attribute_or_def)

theorem translate_query_single_entry_witness:
  "attribute example_field = Some ''_id'' \<and>
   translate_query example_field ''id'' (PInt 3) = [(''_id'', PInt 3)] \<and>
   attribute (example_field\<lparr>attribute := None\<rparr>) = None \<and>
   translate_query (example_field\<lparr>attribute := None\<rparr>) ''id'' (PInt 3) = [(''id'', PInt 3)]"
proof -
  have a: "attribute example_field = Some ''_id''"
    by (simp add: example_field_def BaseField_init_def example_super_init_def)
  have b: "attribute (example_field\<lparr>attribute := None\<rparr>) = None" by simp
  from translate_query_single_entry [of example_field "''_id''" "''id''" "PInt 3"]
    translate_query_single_entry
      [of "example_field\<lparr>attribute := None\<rparr>" "''_id''" "''id''" "PInt 3"]
    a b
  show ?thesis by simp
qed

text \<open>
  Claim C10. For a data object that keeps the methods of \<^verbatim>\<open>BaseDataObject\<close>,
  \<^verbatim>\<open>to_mongo\<close>, for either value of \<^verbatim>\<open>update\<close>, and \<^verbatim>\<open>dump\<close> return the object
  itself.
\<close>

theorem base_data_object_identity:
  "to_mongo self update = self \<and> dump self = self"
  by (simp add: to_mongo_def dump_def)

subsection \<open>The index kind of a field\<close>

text \<open>
  Claim C3. For all eight combinations of \<open>required\<close>, \<open>allow_none\<close> and \<open>unique\<close>
  exactly one row of the specification's table matches, and the computed index kind
  is: no index when \<open>unique\<close> is false; a plain unique index when \<open>unique\<close> is true
  and \<open>allow_none\<close> is false, whatever \<open>required\<close> is, and also when all three flags
  are true; a unique sparse index exactly when \<open>unique\<close> is true, \<open>required\<close> is
  false and \<open>allow_none\<close> is true.
\<close>

theorem compute_index_kind_table:
  "length (filter (row_matches required' allow_none' unique') spec_index_table) = 1 \<and>
   (\<not> unique' \<longrightarrow> compute_index_kind required' allow_none' unique' = Some No_index) \<and>
   (unique' \<and> \<not> allow_none' \<longrightarrow>
      compute_index_kind required' allow_none' unique' = Some Unique_index) \<and>
   (unique' \<and> required' \<and> allow_none' \<longrightarrow>
      compute_index_kind required' allow_none' unique' = Some Unique_index) \<and>
   (compute_index_kind required' allow_none' unique' = Some Unique_sparse_index \<longleftrightarrow>
      unique' \<and> \<not> required' \<and> allow_none')"
  by (cases required'; cases allow_none'; cases unique')
    (simp_all add: compute_index_kind_def spec_index_table_def row_matches_def cell_matches_def)

theorem compute_index_kind_table_witness:
  "compute_index_kind False False False = Some No_index \<and>
   compute_index_kind False True False = Some No_index \<and>
   compute_index_kind True False False = Some No_index \<and>
   compute_index_kind True True False = Some No_index \<and>
   compute_index_kind True False True = Some Unique_index \<and>
   compute_index_kind False False True = Some Unique_index \<and>
   compute_index_kind True True True = Some Unique_index \<and>
   compute_index_kind False True True = Some Unique_sparse_index \<and>
   field_index_kind example_field = Some Unique_index"
  using compute_index_kind_table [of False False False]
    compute_index_kind_table [of False True False]
    compute_index_kind_table [of True False False]
    compute_index_kind_table [of True True False]
    compute_index_kind_table [of True False True]
    compute_index_kind_table [of False False True]
    compute_index_kind_table [of True True True]
    compute_index_kind_table [of False True True]
  by (simp add: field_index_kind_def example_field_def BaseField_init_def example_super_init_def)

subsection \<open>The check for unknown fields\<close>

text \<open>
  Claim C2, amended. The check depends on the schema and on the raw mapping only,
  not on the data that the fields produced. When every key of the raw mapping is the
  declared name of a loadable field it passes; otherwise it raises once, for the first
  key of the mapping that is not such a name, the \<^verbatim>\<open>ValidationError\<close> whose message
  is the translated template with that key inserted, and later unknown keys are not
  reported. Without a catalog the message is \<^verbatim>\<open>Unknown field name <key>.\<close>; loading
  \<^verbatim>\<open>{"ghost": 1}\<close> against a schema with the single field \<^verbatim>\<open>name\<close> raises the error
  for \<^verbatim>\<open>ghost\<close>, whatever the flags of the field.
\<close>

theorem check_unknown_fields_first_unknown_key:
  "check_unknown_fields gettext self data original_data =
     (case filter (\<lambda>key. key \<notin> set (loadable_fields self)) (map fst original_data) of
        [] \<Rightarrow> Inr ()
      | key # others \<Rightarrow> Inl (raise_unknown_field gettext key)) \<and>
   check_unknown_fields gettext self data original_data =
     check_unknown_fields gettext self data' original_data \<and>
   (py_format (gettext (PStr ''Unknown field name {field}.'')) key' = Inr msg \<longrightarrow>
      raise_unknown_field gettext key' = ValidationError msg) \<and>
   raise_unknown_field no_catalog key' =
     ValidationError (''Unknown field name '' @ key' @ ''.'') \<and>
   check_unknown_fields no_catalog \<lparr>fields_v = [(''name'', f)]\<rparr> data [(''ghost'', v)] =
     Inl (ValidationError ''Unknown field name ghost.'')"
proof -
  have localized:
    "py_format (gettext (PStr ''Unknown field name {field}.'')) key' = Inr msg \<longrightarrow>
       raise_unknown_field gettext key' = ValidationError msg"
    by (simp add: raise_unknown_field_def)
  show ?thesis
    using localized
    by (simp add: check_unknown_fields_def check_unknown_fields_loop_first
        raise_unknown_field_no_catalog loadable_fields_def)
qed

theorem check_unknown_fields_first_unknown_key_witness:
  "check_unknown_fields no_catalog name_schema () [(''name'', PStr ''x''), (''ghost'', PInt 1)] =
     Inl (ValidationError ''Unknown field name ghost.'') \<and>
   check_unknown_fields no_catalog name_schema () [(''name'', PStr ''x'')] = Inr () \<and>
   check_unknown_fields no_catalog id_schema () [(''_id'', PInt 1)] =
     Inl (ValidationError ''Unknown field name _id.'') \<and>
   py_format (fr_catalog (PStr ''Unknown field name {field}.'')) ''ghost'' =
     Inr ''Champ inconnu : ghost.'' \<and>
   check_unknown_fields fr_catalog name_schema () [(''ghost'', PInt 1)] =
     Inl (ValidationError ''Champ inconnu : ghost.'')"
proof -
  have fmt: "py_format (fr_catalog (PStr ''Unknown field name {field}.'')) ''ghost'' =
     Inr ''Champ inconnu : ghost.''"
    by (simp add: fr_catalog_def prepend_def)
  from check_unknown_fields_first_unknown_key
      [of no_catalog name_schema "()" "[(''name'', PStr ''x''), (''ghost'', PInt 1)]" "()"
          "''ghost''" "''Unknown field name ghost.''" example_super_init "PInt 1"]
    check_unknown_fields_first_unknown_key
      [of no_catalog name_schema "()" "[(''name'', PStr ''x'')]" "()"
          "''ghost''" "''Unknown field name ghost.''" example_super_init "PInt 1"]
    check_unknown_fields_first_unknown_key
      [of no_catalog id_schema "()" "[(''_id'', PInt 1)]" "()"
          "''_id''" "''Unknown field name _id.''" example_super_init "PInt 1"]
    check_unknown_fields_first_unknown_key
      [of fr_catalog name_schema "()" "[(''ghost'', PInt 1)]" "()"
          "''ghost''" "''Champ inconnu : ghost.''" example_super_init "PInt 1"]
    fmt
  show ?thesis
    by (simp add: name_schema_def id_schema_def loadable_fields_def example_super_init_def)
qed

text \<open>
  A raw mapping with two unknown keys: the check raises the error for \<^verbatim>\<open>ghost\<close>
  only. The key \<^verbatim>\<open>phantom\<close> is not a loadable field name either, and no error cites
  it.
\<close>

theorem unknown_keys_counterexample:
  "''phantom'' \<in> fst ` set two_unknown_keys \<and>
   ''phantom'' \<notin> set (loadable_fields name_schema) \<and>
   check_unknown_fields no_catalog name_schema () two_unknown_keys =
     Inl (ValidationError ''Unknown field name ghost.'') \<and>
   ValidationError ''Unknown field name phantom.'' \<notin>
     set (raised (check_unknown_fields no_catalog name_schema () two_unknown_keys)) \<and>
   raised (check_unknown_fields no_catalog name_schema () two_unknown_keys) \<noteq>
     unknown_key_errors_spec no_catalog name_schema two_unknown_keys"
  by (simp add: two_unknown_keys_def name_schema_def loadable_fields_def check_unknown_fields_def
      raise_unknown_field_no_catalog raised_def unknown_key_errors_spec_def example_super_init_def)

text \<open>
  Claim C8. In a schema (whose field names are distinct, as the keys of a dictionary
  are), the name of a \<^verbatim>\<open>dump_only\<close> field is not a loadable field name. A raw mapping
  that holds such a key is rejected: the check raises the error of an unknown field,
  for that key or for an unknown key before it, and without a catalog that error is a
  \<^verbatim>\<open>ValidationError\<close>.
\<close>

theorem dump_only_key_rejected:
  assumes "distinct (map fst (fields_v self))"
    and "map_of (fields_v self) key = Some f"
    and "dump_only f"
    and "key \<in> fst ` set original_data"
  shows "key \<notin> set (loadable_fields self) \<and>
         (\<exists>k. k \<in> fst ` set original_data \<and> k \<notin> set (loadable_fields self) \<and>
              check_unknown_fields gettext self data original_data =
                Inl (raise_unknown_field gettext k)) \<and>
         (\<exists>k. check_unknown_fields no_catalog self data original_data =
                Inl (ValidationError (''Unknown field name '' @ k @ ''.'')))"
proof -
  have unknown: "key \<notin> set (loadable_fields self)"
    using loadable_fields_not_dump_only [OF assms(1-3)] by (simp add: loadable_fields_def)
  from assms(4) have "key \<in> set (map fst original_data)" by simp
  from filter_nonempty_hd [OF this, of "\<lambda>k. k \<notin> set (loadable_fields self)"] unknown
  obtain k ks where first:
    "filter (\<lambda>k. k \<notin> set (loadable_fields self)) (map fst original_data) = k # ks"
    "k \<in> set (map fst original_data)" "k \<notin> set (loadable_fields self)"
    by blast
  have raise: "\<And>g. check_unknown_fields g self data original_data = Inl (raise_unknown_field g k)"
    by (simp add: check_unknown_fields_def check_unknown_fields_loop_first first(1))
  have "\<exists>k. k \<in> fst ` set original_data \<and> k \<notin> set (loadable_fields self) \<and>
          check_unknown_fields gettext self data original_data =
            Inl (raise_unknown_field gettext k)"
    using first(2,3) raise by auto
  moreover have "\<exists>k. check_unknown_fields no_catalog self data original_data =
                Inl (ValidationError (''Unknown field name '' @ k @ ''.''))"
    using raise [of no_catalog] by (simp add: raise_unknown_field_no_catalog)
  ultimately show ?thesis using unknown by blast
qed

theorem dump_only_key_rejected_witness:
  "distinct (map fst (fields_v stamped_schema)) \<and>
   map_of (fields_v stamped_schema) ''created'' =
     Some (example_super_init\<lparr>attribute := None, dump_only := True\<rparr>) \<and>
   dump_only (example_super_init\<lparr>attribute := None, dump_only := True\<rparr>) \<and>
   ''created'' \<in> fst ` set [(''name'', PStr ''x''), (''created'', PInt 0)] \<and>
   ''created'' \<notin> set (loadable_fields stamped_schema) \<and>
   check_unknown_fields no_catalog stamped_schema ()
     [(''name'', PStr ''x''), (''created'', PInt 0)] =
     Inl (ValidationError ''Unknown field name created.'')"
proof -
  have h1: "distinct (map fst (fields_v stamped_schema))"
    by (simp add: stamped_schema_def)
  have h2: "map_of (fields_v stamped_schema) ''created'' =
     Some (example_super_init\<lparr>attribute := None, dump_only := True\<rparr>)"
    by (simp add: stamped_schema_def)
  have h3: "dump_only (example_super_init\<lparr>attribute := None, dump_only := True\<rparr>)"
    by simp
  have h4: "''created'' \<in> fst ` set [(''name'', PStr ''x''), (''created'', PInt 0)]"
    by simp
  have run: "check_unknown_fields no_catalog stamped_schema ()
     [(''name'', PStr ''x''), (''created'', PInt 0)] =
     Inl (ValidationError ''Unknown field name created.'')"
    by (simp add: check_unknown_fields_def stamped_schema_def loadable_fields_def
        example_super_init_def raise_unknown_field_no_catalog)
  from dump_only_key_rejected [OF h1 h2 h3 h4, of no_catalog "()"] h1 h2 h3 h4 run
  show ?thesis by simp
qed

subsection \<open>Translation on read\<close>

text \<open>
  Claim C6. A field stores the templates of its error messages as they were given,
  and a validator stores the message that was assigned to \<^verbatim>\<open>error\<close> as it was
  given. Each lookup of a message of the field and each read of \<^verbatim>\<open>error\<close> returns
  the stored template passed through the catalog that is active at that moment. So two
  catalogs that translate the template differently give different messages for the
  same field and the same validator.
\<close>

theorem error_messages_translated_on_read:
  assumes "map_of (errdict_items (error_messages super_init)) name = Some raw_msg"
  shows "error_messages (BaseField_init super_init io_validate' unique' instance') =
           I18nErrorDict (errdict_items (error_messages super_init)) \<and>
         errdict_getitem gettext
           (error_messages (BaseField_init super_init io_validate' unique' instance')) name =
           Inr (gettext raw_msg) \<and>
         u_error (error_setter validator raw_msg) = raw_msg \<and>
         error gettext (error_setter validator raw_msg) = gettext raw_msg \<and>
         (gettext raw_msg \<noteq> gettext' raw_msg \<longrightarrow>
            errdict_getitem gettext
              (error_messages (BaseField_init super_init io_validate' unique' instance')) name \<noteq>
            errdict_getitem gettext'
              (error_messages (BaseField_init super_init io_validate' unique' instance')) name \<and>
            error gettext (error_setter validator raw_msg) \<noteq>
            error gettext' (error_setter validator raw_msg))"
  using assms
  by (simp add: BaseField_init_def I18nErrorDict_init_def
      I18nErrorDict_getitem_def dict_getitem_def error_def error_setter_def)

theorem error_messages_translated_on_read_witness:
  "map_of (errdict_items (error_messages example_super_init)) ''unique'' =
     Some (PStr ''Field value must be unique.'') \<and>
   errdict_getitem no_catalog (error_messages example_field) ''unique'' =
     Inr (PStr ''Field value must be unique.'') \<and>
   errdict_getitem fr_catalog (error_messages example_field) ''unique'' =
     Inr (PStr ''Valeur deja utilisee.'') \<and>
   error no_catalog (error_setter Range_validator (PStr ''Field value must be unique.'')) =
     PStr ''Field value must be unique.'' \<and>
   error fr_catalog (error_setter Range_validator (PStr ''Field value must be unique.'')) =
     PStr ''Valeur deja utilisee.''"
proof -
  have h: "map_of (errdict_items (error_messages example_super_init)) ''unique'' =
     Some (PStr ''Field value must be unique.'')"
    by (simp add: example_super_init_def default_error_messages_def)
  from error_messages_translated_on_read
      [OF h, of PNone True PNone no_catalog Range_validator fr_catalog]
    error_messages_translated_on_read
      [OF h, of PNone True PNone fr_catalog Range_validator no_catalog] h
  show ?thesis
    by (simp add: example_field_def no_catalog_def fr_catalog_def I18nErrorDict_getitem_def
        dict_getitem_def error_def error_setter_def)
qed

subsection \<open>Projection to marshmallow\<close>



text \<open>
  Claim C4. The claim asks \<^verbatim>\<open>as_marshmallow_validator\<close> for an equivalent
  storage-agnostic validator. On the validator \<^verbatim>\<open>Range(min=0)\<close> the method raises
  \<^verbatim>\<open>AttributeError\<close> for \<^verbatim>\<open>default\<close>, the first of the ten field attributes it reads.
  On a validator that is given those ten attributes it returns \<^verbatim>\<open>None\<close>, with or
  without overriding parameters, since no class of a validator is a marshmallow field
  class. In no case does it return a validator.
\<close>

theorem as_marshmallow_validator_returns_no_validator:
  "as_marshmallow_validator no_catalog record_call Range_validator None False =
     Inl (AttributeError ''default'') \<and>
   as_marshmallow_validator no_catalog record_call
     (Range_validator\<lparr>attrs := field_like_attrs\<rparr>) None False = Inr None \<and>
   as_marshmallow_validator no_catalog record_call
     (Range_validator\<lparr>attrs := field_like_attrs\<rparr>) (Some [(''min'', PInt 1)]) False = Inr None"
  by (simp add: as_marshmallow_validator_def validator_getattr_def Range_validator_def
      BaseValidator_init_def error_setter_def field_like_attrs_def update_if_params_def
      Range_mro_def object_class_def issubclass_def ma_Field_name_def)

end
